theory Spec2Isabelle
  imports Main "HOL-Library.Sublist"
begin

section \<open>JSON values and the JavaScript operations the handlers apply to them\<close>

text \<open>
  Arguments and response bodies are untyped in the source (\<^verbatim>\<open>any\<close>). An object is an
  ordered list of properties; the keys of a well-formed object are distinct, and
  \<open>map_of\<close> is then the property read. Numbers are the integers.
\<close>

datatype json =
    JNull
  | JBool bool
  | JNum int
  | JStr string
  | JArr "json list"
  | JObj "(string \<times> json) list"

text \<open>Truthiness, as \<^verbatim>\<open>&&\<close>, \<^verbatim>\<open>?:\<close> and \<^verbatim>\<open>if\<close> test it.\<close>

fun truthy :: "json \<Rightarrow> bool" where
  "truthy JNull = False"
| "truthy (JBool b) = b"
| "truthy (JNum n) = (n \<noteq> 0)"
| "truthy (JStr s) = (s \<noteq> [])"
| "truthy (JArr xs) = True"
| "truthy (JObj kvs) = True"

text \<open>\<^verbatim>\<open>x.k\<close> on a value that is not null: \<open>None\<close> is \<^verbatim>\<open>undefined\<close>.\<close>

fun get_prop :: "json \<Rightarrow> string \<Rightarrow> json option" where
  "get_prop (JObj kvs) k = map_of kvs k"
| "get_prop j k = None"

fun digit_char :: "nat \<Rightarrow> char" where
  "digit_char n = char_of (48 + n)"

fun nat_digits :: "nat \<Rightarrow> string" where
  "nat_digits n = (if n < 10 then [digit_char n] else nat_digits (n div 10) @ [digit_char (n mod 10)])"

declare nat_digits.simps [simp del]

definition int_digits :: "int \<Rightarrow> string" where
  "int_digits i = (if i < 0 then CHR ''-'' # nat_digits (nat (- i)) else nat_digits (nat i))"

fun join_with :: "string \<Rightarrow> string list \<Rightarrow> string" where
  "join_with sep [] = []"
| "join_with sep [x] = x"
| "join_with sep (x # y # ys) = x @ sep @ join_with sep (y # ys)"

text \<open>\<^verbatim>\<open>String(v)\<close>, which a template literal \<^verbatim>\<open>`${v}`\<close> applies.\<close>

fun js_string :: "json \<Rightarrow> string" where
  "js_string JNull = ''null''"
| "js_string (JBool b) = (if b then ''true'' else ''false'')"
| "js_string (JNum n) = int_digits n"
| "js_string (JStr s) = s"
| "js_string (JArr xs) = join_with '','' (map (\<lambda>x. if x = JNull then [] else js_string x) xs)"
| "js_string (JObj kvs) = ''[object Object]''"

definition template :: "json option \<Rightarrow> string" where
  "template v = (case v of None \<Rightarrow> ''undefined'' | Some j \<Rightarrow> js_string j)"

section \<open>HTTP requests, responses and failures\<close>

datatype body = NoBody | FormBody string | JsonBody json

record http_request =
  http_method :: string
  url :: string
  headers :: "(string \<times> string) list"
  payload :: body

record http_response =
  status :: nat
  data :: json
  response_headers :: "(string \<times> string) list"

text \<open>
  What an axios call rejects with: an axios error (with the response, when one came
  back, and the url and method of the request's config), or any other thrown error.
\<close>

record axios_error =
  message :: string
  response :: "http_response option"
  config_url :: "string option"
  config_method :: "string option"

datatype thrown = AxiosError axios_error | PlainError string

fun error_message :: "thrown \<Rightarrow> string" where
  "error_message (AxiosError e) = message e"
| "error_message (PlainError m) = m"

datatype 'a outcome = Resolved 'a | Rejected thrown

section \<open>The authentication service\<close>

datatype environment = Sandbox | Live

record PayPalAuthOptions =
  opt_clientId :: string
  opt_clientSecret :: string
  opt_environment :: environment

record TokenResponse =
  access_token :: string
  token_type :: string
  app_id :: string
  expires_in :: int
  nonce :: string
  scope :: string
  expiration :: "int option"

record PayPalAuthService =
  clientId :: string
  clientSecret :: string
  baseUrl :: string
  tokenData :: "TokenResponse option"
  tokenExpiryBuffer :: int

definition constructor :: "PayPalAuthOptions \<Rightarrow> PayPalAuthService" where
  "constructor options =
     \<lparr> clientId = opt_clientId options,
       clientSecret = opt_clientSecret options,
       baseUrl = (if opt_environment options = Sandbox
                  then ''https://api-m.sandbox.paypal.com''
                  else ''https://api-m.paypal.com''),
       tokenData = None,
       tokenExpiryBuffer = 300 \<rparr>"

definition getBaseUrl :: "PayPalAuthService \<Rightarrow> string" where
  "getBaseUrl s = baseUrl s"

text \<open>
  The test that opens \<^verbatim>\<open>ensureAccessToken\<close>: a token is cached, its \<^verbatim>\<open>expiration\<close>
  is truthy, and \<^verbatim>\<open>Date.now()\<close> (milliseconds since the epoch, \<open>now\<close>) is before the
  expiration less the buffer.
\<close>

definition token_fresh :: "nat \<Rightarrow> PayPalAuthService \<Rightarrow> bool" where
  "token_fresh now s =
     (case tokenData s of
        None \<Rightarrow> False
      | Some td \<Rightarrow>
          (case expiration td of
             None \<Rightarrow> False
           | Some e \<Rightarrow> e \<noteq> 0 \<and> int now < e - tokenExpiryBuffer s * 1000))"

section \<open>Logging and the log sanitizer\<close>

fun to_lower :: "char \<Rightarrow> char" where
  "to_lower c =
     (if (65::nat) \<le> of_char c \<and> of_char c \<le> (90::nat) then char_of (of_char c + (32::nat)) else c)"

text \<open>
  Modelled from the spec: \<^verbatim>\<open>sanitizeForLogging\<close> is imported from
  \<^verbatim>\<open>../utils/validation.js\<close>, whose text is not at hand; the tools and
  \<^verbatim>\<open>handleRequestError\<close> call it. The spec's redaction contract: recursively mask
  the fields whose keys case-insensitively match a secret-like pattern, replacing their
  values with a fixed mask. The patterns are the spec's examples; a key matches when,
  lower-cased, it contains one of them; the spec does not give the text of the mask.
\<close>

definition sensitive_patterns :: "string list" where
  "sensitive_patterns =
     [''secret'', ''token'', ''password'', ''security_code'', ''number'', ''cvv'']"

definition redaction_mask :: string where
  "redaction_mask = ''[REDACTED]''"

definition is_sensitive_key :: "string \<Rightarrow> bool" where
  "is_sensitive_key k = list_ex (\<lambda>p. sublist p (map to_lower k)) sensitive_patterns"

text \<open>
  Modelled from the spec: the sanitizer itself, by the contract above. It descends into
  objects and arrays; a value under a matching key is replaced whole.
\<close>

fun sanitizeForLogging :: "json \<Rightarrow> json" where
  "sanitizeForLogging (JObj kvs) =
     JObj (map (\<lambda>kv. (fst kv, if is_sensitive_key (fst kv) then JStr redaction_mask
                               else sanitizeForLogging (snd kv))) kvs)"
| "sanitizeForLogging (JArr xs) = JArr (map sanitizeForLogging xs)"
| "sanitizeForLogging j = j"

datatype log_level = ERROR | INFO | DEBUG

text \<open>
  What is handed to the logger after the message: a JSON value, a caught error, or the
  object \<^verbatim>\<open>{status, data, url, method}\<close> that \<^verbatim>\<open>handleRequestError\<close> builds.
\<close>

datatype log_arg =
    LJson json
  | LThrown thrown
  | LApiError "nat option" "json option" "string option" "string option"

datatype log_entry = Log log_level string "log_arg list"

text \<open>
  The outcome of running an operation: what it returns (\<open>Inr\<close>) or throws (\<open>Inl\<close>),
  the service afterwards, the HTTP requests it issued and the log lines it wrote, both
  in order.
\<close>

record 'a run =
  result :: "thrown + 'a"
  state_after :: PayPalAuthService
  sent :: "http_request list"
  logged :: "log_entry list"

section \<open>Base64, as \<^verbatim>\<open>Buffer.from(s).toString('base64')\<close>\<close>

definition b64_alphabet :: string where
  "b64_alphabet = ''ABCDEFGHIJKLMNOPQRSTUVWXYZabcdefghijklmnopqrstuvwxyz0123456789+/''"

definition b64_char :: "nat \<Rightarrow> char" where
  "b64_char n = b64_alphabet ! (n mod 64)"

fun b64_groups :: "nat list \<Rightarrow> string" where
  "b64_groups [] = []"
| "b64_groups [a] = [b64_char (a div 4), b64_char ((a mod 4) * 16), CHR ''='', CHR ''='']"
| "b64_groups [a, b] =
     [b64_char (a div 4), b64_char ((a mod 4) * 16 + b div 16),
      b64_char ((b mod 16) * 4), CHR ''='']"
| "b64_groups (a # b # c # rest) =
     [b64_char (a div 4), b64_char ((a mod 4) * 16 + b div 16),
      b64_char ((b mod 16) * 4 + c div 64), b64_char (c mod 64)] @ b64_groups rest"

definition base64 :: "string \<Rightarrow> string" where
  "base64 s = b64_groups (map of_char s)"

section \<open>\<^verbatim>\<open>handleRequestError\<close>: the response interceptor's error handler\<close>

text \<open>\<^verbatim>\<open>data && data.k\<close>: the value of the field when both are truthy.\<close>

definition truthy_field :: "json option \<Rightarrow> string \<Rightarrow> json option" where
  "truthy_field d k =
     (case d of
        None \<Rightarrow> None
      | Some j \<Rightarrow>
          if truthy j
          then (case get_prop j k of
                  None \<Rightarrow> None
                | Some v \<Rightarrow> if truthy v then Some v else None)
          else None)"

definition unexpected_log :: "thrown \<Rightarrow> log_entry" where
  "unexpected_log err = Log ERROR ''Unexpected error in PayPal API request:'' [LThrown err]"

text \<open>
  Returns the value the promise is rejected with (\<^verbatim>\<open>new Error(m)\<close> is \<open>PlainError m\<close>),
  the service afterwards and the log lines written.
\<close>

definition handleRequestError ::
  "thrown \<Rightarrow> PayPalAuthService \<Rightarrow> thrown \<times> PayPalAuthService \<times> log_entry list" where
  "handleRequestError err s =
     (case err of
        AxiosError e \<Rightarrow>
          (let st = map_option status (response e);
               d = map_option data (response e);
               api_log = Log ERROR ''PayPal API error:''
                           [LApiError st (map_option sanitizeForLogging d)
                              (config_url e) (config_method e)]
           in if st = Some 401
              then (PlainError ''Authentication failed with PayPal API. Token may have expired.'',
                    s\<lparr>tokenData := None\<rparr>, [api_log])
              else (case truthy_field d ''error_description'' of
                      Some v \<Rightarrow> (PlainError (''PayPal API error: '' @ js_string v), s, [api_log])
                    | None \<Rightarrow>
                        (case truthy_field d ''message'' of
                           Some v \<Rightarrow> (PlainError (''PayPal API error: '' @ js_string v), s, [api_log])
                         | None \<Rightarrow> (err, s, [api_log, unexpected_log err]))))
      | PlainError m \<Rightarrow> (err, s, [unexpected_log err]))"

section \<open>Obtaining and caching the access token\<close>

definition token_request :: "PayPalAuthService \<Rightarrow> http_request" where
  "token_request s =
     \<lparr> http_method = ''post'',
       url = baseUrl s @ ''/v1/oauth2/token'',
       headers = [(''Accept'', ''application/json''),
                  (''Authorization'', ''Basic '' @ base64 (clientId s @ '':'' @ clientSecret s)),
                  (''Content-Type'', ''application/x-www-form-urlencoded'')],
       payload = FormBody ''grant_type=client_credentials'' \<rparr>"

text \<open>
  \<^verbatim>\<open>getAccessToken\<close> suspends once, at \<^verbatim>\<open>await this.httpClient.post(...)\<close>. What runs
  after the request settles, at time \<open>now\<close>: on a response the token is stored with its
  expiration; a rejection has passed through the interceptor (\<open>handleRequestError\<close>)
  before the \<^verbatim>\<open>catch\<close> replaces it.
\<close>

definition getAccessToken_resume ::
  "nat \<Rightarrow> TokenResponse outcome \<Rightarrow> PayPalAuthService \<Rightarrow> string run" where
  "getAccessToken_resume now settled s =
     (case settled of
        Resolved r \<Rightarrow>
          (let td = r\<lparr>expiration := Some (int now + expires_in r * 1000)\<rparr>
           in \<lparr> result = Inr (access_token td),
                state_after = s\<lparr>tokenData := Some td\<rparr>,
                sent = [],
                logged = [Log DEBUG ''Obtained new PayPal access token'' []] \<rparr>)
      | Rejected err \<Rightarrow>
          (case handleRequestError err s of
             (err', s', logs) \<Rightarrow>
               \<lparr> result = Inl (PlainError ''Failed to authenticate with PayPal API''),
                 state_after = s',
                 sent = [],
                 logged = logs @ [Log ERROR ''Failed to obtain PayPal access token:'' [LThrown err']] \<rparr>))"

text \<open>
  Run to completion against a token endpoint \<open>exch\<close> whose answer arrives at time
  \<open>now\<close>.
\<close>

definition getAccessToken ::
  "(http_request \<Rightarrow> TokenResponse outcome) \<Rightarrow> nat \<Rightarrow> PayPalAuthService \<Rightarrow> string run" where
  "getAccessToken exch now s =
     (let req = token_request s
      in (getAccessToken_resume now (exch req) s)\<lparr>sent := [req]\<rparr>)"

text \<open>
  \<open>now\<close> is \<^verbatim>\<open>Date.now()\<close> at the test, \<open>now'\<close> at the exchange's answer, if one is
  made.
\<close>

definition ensureAccessToken ::
  "(http_request \<Rightarrow> TokenResponse outcome) \<Rightarrow> nat \<Rightarrow> nat \<Rightarrow> PayPalAuthService \<Rightarrow> string run" where
  "ensureAccessToken exch now now' s =
     (case tokenData s of
        None \<Rightarrow> getAccessToken exch now' s
      | Some td \<Rightarrow>
          if token_fresh now s
          then \<lparr> result = Inr (access_token td), state_after = s, sent = [], logged = [] \<rparr>
          else getAccessToken exch now' s)"

definition verifyCredentials ::
  "(http_request \<Rightarrow> TokenResponse outcome) \<Rightarrow> nat \<Rightarrow> PayPalAuthService \<Rightarrow> bool run" where
  "verifyCredentials exch now s =
     (let r = getAccessToken exch now s
      in case result r of
           Inr tok \<Rightarrow>
             \<lparr> result = Inr True, state_after = state_after r, sent = sent r,
               logged = logged r @ [Log INFO ''PayPal credentials verified successfully'' []] \<rparr>
         | Inl err \<Rightarrow>
             \<lparr> result = Inl (PlainError
                  ''Invalid PayPal credentials. Please check your client ID and secret.''),
               state_after = state_after r, sent = sent r,
               logged = logged r @ [Log ERROR ''Failed to verify PayPal credentials:'' [LThrown err]] \<rparr>)"


section \<open>The authenticated client\<close>

record client =
  baseURL :: string
  default_headers :: "(string \<times> string) list"

definition getAuthenticatedClient ::
  "(http_request \<Rightarrow> TokenResponse outcome) \<Rightarrow> nat \<Rightarrow> nat \<Rightarrow> PayPalAuthService \<Rightarrow> client run" where
  "getAuthenticatedClient exch now now' s =
     (let r = ensureAccessToken exch now now' s
      in case result r of
           Inl err \<Rightarrow>
             \<lparr> result = Inl err, state_after = state_after r, sent = sent r, logged = logged r \<rparr>
         | Inr tok \<Rightarrow>
             \<lparr> result = Inr
                 \<lparr> baseURL = baseUrl (state_after r),
                   default_headers =
                     [(''Authorization'',
                       ''Bearer '' @ template (map_option (\<lambda>td. JStr (access_token td))
                                                 (tokenData (state_after r)))),
                      (''Content-Type'', ''application/json'')] \<rparr>,
               state_after = state_after r, sent = sent r, logged = logged r \<rparr>)"

text \<open>
  A request issued through the client, against a provider \<open>api\<close>: a rejection passes
  through the client's response interceptor.
\<close>

definition client_request ::
  "client \<Rightarrow> (http_request \<Rightarrow> http_response outcome) \<Rightarrow> string \<Rightarrow> string \<Rightarrow> body \<Rightarrow>
   PayPalAuthService \<Rightarrow> http_response run" where
  "client_request c api m path b s =
     (let req = \<lparr> http_method = m, url = baseURL c @ path, headers = default_headers c, payload = b \<rparr>
      in case api req of
           Resolved resp \<Rightarrow> \<lparr> result = Inr resp, state_after = s, sent = [req], logged = [] \<rparr>
         | Rejected err \<Rightarrow>
             (case handleRequestError err s of
                (err', s', logs) \<Rightarrow>
                  \<lparr> result = Inl err', state_after = s', sent = [req], logged = logs \<rparr>))"

section \<open>The tools\<close>


definition createSubscription ::
  "(string \<times> json) list \<Rightarrow> (http_request \<Rightarrow> TokenResponse outcome) \<Rightarrow>
   (http_request \<Rightarrow> http_response outcome) \<Rightarrow> nat \<Rightarrow> nat \<Rightarrow> PayPalAuthService \<Rightarrow> json run" where
  "createSubscription args exch api now now' s =
     (let plan_id = map_of args ''plan_id'';
          rest = filter (\<lambda>kv. fst kv \<noteq> ''plan_id'') args;
          intro = [Log INFO (''Creating subscription for plan: '' @ template plan_id) [],
                   Log DEBUG ''Subscription args:'' [LJson (sanitizeForLogging (JObj args))]];
          a = getAuthenticatedClient exch now now' s
      in case result a of
           Inl err \<Rightarrow>
             \<lparr> result = Inl err, state_after = state_after a, sent = sent a,
               logged = intro @ logged a \<rparr>
         | Inr c \<Rightarrow>
             (let p = client_request c api ''post'' ''/v1/billing/subscriptions''
                        (JsonBody (JObj rest)) (state_after a)
              in case result p of
                   Inr resp \<Rightarrow>
                     \<lparr> result = Inr (data resp), state_after = state_after p,
                       sent = sent a @ sent p, logged = intro @ logged a @ logged p \<rparr>
                 | Inl err \<Rightarrow>
                     \<lparr> result = Inl (PlainError
                          (''Failed to create subscription: '' @ error_message err)),
                       state_after = state_after p, sent = sent a @ sent p,
                       logged = intro @ logged a @ logged p @
                         [Log ERROR (''Error creating subscription for plan '' @
                                     template plan_id @ '':'') [LThrown err]] \<rparr>))"

text \<open>\<^verbatim>\<open>getUserInfo\<close> calls \<^verbatim>\<open>axios.get\<close> itself: no client, no interceptor.\<close>

definition getUserInfo ::
  "(string \<times> json) list \<Rightarrow> (http_request \<Rightarrow> http_response outcome) \<Rightarrow>
   PayPalAuthService \<Rightarrow> json run" where
  "getUserInfo args api s =
     (let access_token_arg = map_of args ''access_token'';
          intro = [Log INFO ''Getting user info'' [],
                   Log DEBUG ''User info args:'' [LJson (sanitizeForLogging (JObj args))]];
          req = \<lparr> http_method = ''get'',
                  url = ''https://api-m.paypal.com/v1/identity/oauth2/userinfo?schema=paypalv1.1'',
                  headers = [(''Authorization'', ''Bearer '' @ template access_token_arg),
                             (''Content-Type'', ''application/json'')],
                  payload = NoBody \<rparr>
      in case api req of
           Resolved resp \<Rightarrow>
             \<lparr> result = Inr (data resp), state_after = s, sent = [req], logged = intro \<rparr>
         | Rejected err \<Rightarrow>
             \<lparr> result = Inl (PlainError (''Failed to get user info: '' @ error_message err)),
               state_after = s, sent = [req],
               logged = intro @ [Log ERROR ''Error getting user info:'' [LThrown err]] \<rparr>)"

section \<open>Concurrent callers on the event loop\<close>

text \<open>
  An \<^verbatim>\<open>async\<close> function runs without interruption up to its first \<^verbatim>\<open>await\<close>. For
  \<^verbatim>\<open>ensureAccessToken\<close> that is the test of the cached token and, when it fails, the
  call of \<^verbatim>\<open>getAccessToken\<close> up to the request it awaits.
\<close>

datatype ensure_step = Returned string | Awaiting http_request

definition ensureAccessToken_start :: "nat \<Rightarrow> PayPalAuthService \<Rightarrow> ensure_step" where
  "ensureAccessToken_start now s =
     (case tokenData s of
        None \<Rightarrow> Awaiting (token_request s)
      | Some td \<Rightarrow>
          if token_fresh now s then Returned (access_token td)
          else Awaiting (token_request s))"

text \<open>
  The loop's state: the service, the callers suspended on their exchange request, every
  exchange request issued so far, and what each finished caller's promise settled with.
\<close>

record event_loop =
  service :: PayPalAuthService
  in_flight :: "(nat \<times> http_request) list"
  exchanges :: "http_request list"
  settled_calls :: "(nat \<times> (thrown + string)) list"

text \<open>
  \<open>Invoke c now\<close>: caller \<open>c\<close> calls \<^verbatim>\<open>ensureAccessToken()\<close> at time \<open>now\<close>.
  \<open>Settle c now r\<close>: the request caller \<open>c\<close> awaits settles with \<open>r\<close> at time \<open>now\<close>,
  and the rest of \<^verbatim>\<open>getAccessToken\<close> runs.
\<close>

datatype event = Invoke nat nat | Settle nat nat "TokenResponse outcome"

fun step :: "event_loop \<Rightarrow> event \<Rightarrow> event_loop" where
  "step L (Invoke c now) =
     (case ensureAccessToken_start now (service L) of
        Returned tok \<Rightarrow> L\<lparr>settled_calls := settled_calls L @ [(c, Inr tok)]\<rparr>
      | Awaiting req \<Rightarrow>
          L\<lparr>in_flight := in_flight L @ [(c, req)], exchanges := exchanges L @ [req]\<rparr>)"
| "step L (Settle c now r) =
     (case map_of (in_flight L) c of
        None \<Rightarrow> L
      | Some req \<Rightarrow>
          (let done = getAccessToken_resume now r (service L)
           in L\<lparr>service := state_after done,
                in_flight := filter (\<lambda>p. fst p \<noteq> c) (in_flight L),
                settled_calls := settled_calls L @ [(c, result done)]\<rparr>))"

definition run_events :: "event_loop \<Rightarrow> event list \<Rightarrow> event_loop" where
  "run_events L evs = foldl step L evs"

definition idle :: "PayPalAuthService \<Rightarrow> event_loop" where
  "idle s = \<lparr> service = s, in_flight = [], exchanges = [], settled_calls = [] \<rparr>"

text \<open>
  Concurrent calls: every caller of \<open>calls\<close> (caller, time of the call) invokes before
  any answer of \<open>answers\<close> (caller, time of arrival, token response) arrives.
\<close>

definition concurrent_calls ::
  "(nat \<times> nat) list \<Rightarrow> (nat \<times> nat \<times> TokenResponse) list \<Rightarrow> event list" where
  "concurrent_calls calls answers =
     map (\<lambda>ct. Invoke (fst ct) (snd ct)) calls @
     map (\<lambda>a. Settle (fst a) (fst (snd a)) (Resolved (snd (snd a)))) answers"

section \<open>Reading a value inside a JSON document\<close>






section \<open>Sample values\<close>

definition sample_options :: PayPalAuthOptions where
  "sample_options =
     \<lparr> opt_clientId = ''id'', opt_clientSecret = ''s3cr3t'', opt_environment = Sandbox \<rparr>"

definition sample_token :: TokenResponse where
  "sample_token =
     \<lparr> access_token = ''A21AAF'', token_type = ''Bearer'', app_id = ''APP-1'',
       expires_in = 32400, nonce = ''n1'', scope = ''openid'', expiration = Some 33400000 \<rparr>"

definition cached_service :: PayPalAuthService where
  "cached_service = (constructor sample_options)\<lparr>tokenData := Some sample_token\<rparr>"

definition offline :: "http_request \<Rightarrow> 'a outcome" where
  "offline req = Rejected (PlainError ''connect ECONNREFUSED'')"

definition accepting :: "http_request \<Rightarrow> http_response outcome" where
  "accepting req =
     Resolved \<lparr> status = 201, data = JObj [(''id'', JStr ''I-1'')], response_headers = [] \<rparr>"

definition short_lived_token :: TokenResponse where
  "short_lived_token =
     \<lparr> access_token = ''A21AAG'', token_type = ''Bearer'', app_id = ''APP-1'',
       expires_in = 300, nonce = ''n2'', scope = ''openid'', expiration = None \<rparr>"

definition second_token :: TokenResponse where
  "second_token =
     \<lparr> access_token = ''A21AAH'', token_type = ''Bearer'', app_id = ''APP-1'',
       expires_in = 32400, nonce = ''n3'', scope = ''openid'', expiration = None \<rparr>"

definition failure_with :: "nat \<Rightarrow> json \<Rightarrow> (string \<times> string) list \<Rightarrow> thrown" where
  "failure_with st d hs =
     AxiosError
       \<lparr> message = ''Request failed with status code '' @ nat_digits st,
         response = Some \<lparr> status = st, data = d, response_headers = hs \<rparr>,
         config_url = Some ''/v2/checkout/orders'',
         config_method = Some ''post'' \<rparr>"

definition unauthorized_error :: axios_error where
  "unauthorized_error =
     \<lparr> message = ''Request failed with status code 401'',
       response = Some \<lparr> status = 401, data = JObj [(''error'', JStr ''invalid_token'')],
                         response_headers = [] \<rparr>,
       config_url = Some ''/v2/checkout/orders'',
       config_method = Some ''post'' \<rparr>"

definition rate_limited_error :: axios_error where
  "rate_limited_error =
     \<lparr> message = ''Request failed with status code 429'',
       response = Some \<lparr> status = 429, data = JObj [(''message'', JStr ''Too many requests'')],
                         response_headers = [] \<rparr>,
       config_url = Some ''/v2/checkout/orders'',
       config_method = Some ''post'' \<rparr>"

definition invalid_request_error :: axios_error where
  "invalid_request_error =
     \<lparr> message = ''Request failed with status code 400'',
       response = Some \<lparr> status = 400,
                         data = JObj [(''error_description'', JStr ''Invalid request'')],
                         response_headers = [] \<rparr>,
       config_url = Some ''/v2/checkout/orders'',
       config_method = Some ''post'' \<rparr>"

definition sample_client :: client where
  "sample_client =
     \<lparr> baseURL = ''https://api-m.sandbox.paypal.com'',
       default_headers = [(''Authorization'', ''Bearer A21AAF''),
                          (''Content-Type'', ''application/json'')] \<rparr>"




definition subscription_args :: "(string \<times> json) list" where
  "subscription_args =
     [(''plan_id'', JStr ''P-123''),
      (''subscriber'',
       JObj [(''name'', JObj [(''given_name'', JStr ''Ada''), (''surname'', JStr ''Byron'')]),
             (''email_address'', JStr ''ada@example.com'')])]"

section \<open>Auxiliary facts\<close>

lemma map_of_filter_key:
  "map_of (filter (\<lambda>kv. fst kv \<noteq> k) kvs) k' = (if k' = k then None else map_of kvs k')"
  by (induction kvs) auto

lemma sent_getAccessToken: "sent (getAccessToken exch now s) = [token_request s]"
  by (simp add: getAccessToken_def Let_def)

lemma ensure_stale:
  "\<not> token_fresh now s \<Longrightarrow> ensureAccessToken exch now now' s = getAccessToken exch now' s"
  by (simp add: ensureAccessToken_def split: option.splits)

lemma stale_at_boundary:
  "tokenData s = Some td \<Longrightarrow> expiration td = Some e \<Longrightarrow>
   e - tokenExpiryBuffer s * 1000 \<le> int now \<Longrightarrow> \<not> token_fresh now s"
  by (simp add: token_fresh_def)

lemma handle_401:
  "response e = Some resp \<Longrightarrow> status resp = 401 \<Longrightarrow>
   handleRequestError (AxiosError e) s =
     (PlainError ''Authentication failed with PayPal API. Token may have expired.'',
      s\<lparr>tokenData := None\<rparr>,
      [Log ERROR ''PayPal API error:''
         [LApiError (Some 401) (Some (sanitizeForLogging (data resp)))
            (config_url e) (config_method e)]])"
  by (simp add: handleRequestError_def Let_def)

lemma getAccessToken_rejected:
  "exch (token_request s) = Rejected err \<Longrightarrow>
   result (getAccessToken exch now s) =
     Inl (PlainError ''Failed to authenticate with PayPal API'')"
  by (simp add: getAccessToken_def getAccessToken_resume_def Let_def split: prod.splits)

lemma sent_client_request:
  "sent (client_request c api m path b s) =
     [\<lparr> http_method = m, url = baseURL c @ path, headers = default_headers c, payload = b \<rparr>]"
  by (simp add: client_request_def Let_def split: outcome.splits prod.splits)

subsection \<open>The two phases of \<^verbatim>\<open>ensureAccessToken\<close> make up the whole\<close>

lemma ensure_phases:
  "ensureAccessToken exch now now' s =
     (case ensureAccessToken_start now s of
        Returned tok \<Rightarrow> \<lparr> result = Inr tok, state_after = s, sent = [], logged = [] \<rparr>
      | Awaiting req \<Rightarrow> (getAccessToken_resume now' (exch req) s)\<lparr>sent := [req]\<rparr>)"
  by (simp add: ensureAccessToken_def ensureAccessToken_start_def getAccessToken_def Let_def
      split: option.splits)

lemma start_stale:
  "\<not> token_fresh now s \<Longrightarrow> ensureAccessToken_start now s = Awaiting (token_request s)"
  by (simp add: ensureAccessToken_start_def split: option.splits)

section \<open>The fast path\<close>

text \<open>
  Claim C2. Whenever a token is cached and the current time is strictly before its
  expiration less the 300-second buffer, \<^verbatim>\<open>ensureAccessToken()\<close> returns the cached
  token string, issues no request and leaves the service as it was (it writes no log
  line either).
\<close>

theorem ensureAccessToken_fast_path:
  assumes "tokenData s = Some td"
    and "expiration td = Some e"
    and "tokenExpiryBuffer s = 300"
    and "int now < e - 300 * 1000"
  shows "ensureAccessToken exch now now' s =
           \<lparr> result = Inr (access_token td), state_after = s, sent = [], logged = [] \<rparr>"
  using assms by (simp add: ensureAccessToken_def token_fresh_def)

theorem ensureAccessToken_fast_path_witness:
  "tokenData cached_service = Some sample_token \<and>
   expiration sample_token = Some 33400000 \<and>
   tokenExpiryBuffer cached_service = 300 \<and>
   int 1000000 < 33400000 - 300 * 1000 \<and>
   ensureAccessToken offline 1000000 1000001 cached_service =
     \<lparr> result = Inr ''A21AAF'', state_after = cached_service, sent = [], logged = [] \<rparr>"
  using ensureAccessToken_fast_path [where s = cached_service and td = sample_token
      and e = 33400000 and now = 1000000 and exch = offline and now' = 1000001]
  by (simp add: cached_service_def sample_token_def constructor_def)

section \<open>The expiry buffer\<close>

text \<open>
  Claim C4. A token issued with \<^verbatim>\<open>expires_in = 300\<close> under the 300-second buffer is
  stale from the instant it is issued: its expiration less the buffer is the time of
  issue, and a call of \<^verbatim>\<open>ensureAccessToken()\<close> at that instant (the boundary) or later
  does not return it but performs the exchange again.
\<close>

theorem expiry_buffer_boundary:
  assumes "tokenExpiryBuffer s = 300"
    and "expires_in r = 300"
    and "exch (token_request s) = Resolved r"
    and "issued \<le> now"
  shows "tokenData (state_after (getAccessToken exch issued s)) =
           Some (r\<lparr>expiration := Some (int issued + 300 * 1000)\<rparr>) \<and>
         \<not> token_fresh now (state_after (getAccessToken exch issued s)) \<and>
         ensureAccessToken exch' now now' (state_after (getAccessToken exch issued s)) =
           getAccessToken exch' now' (state_after (getAccessToken exch issued s)) \<and>
         sent (ensureAccessToken exch' now now' (state_after (getAccessToken exch issued s))) =
           [token_request s]"
proof -
  let ?s = "state_after (getAccessToken exch issued s)"
  have st: "?s = s\<lparr>tokenData := Some (r\<lparr>expiration := Some (int issued + 300 * 1000)\<rparr>)\<rparr>"
    using assms(2,3) by (simp add: getAccessToken_def getAccessToken_resume_def Let_def)
  have stale: "\<not> token_fresh now ?s"
  proof (rule stale_at_boundary)
    show "tokenData ?s = Some (r\<lparr>expiration := Some (int issued + 300 * 1000)\<rparr>)"
      by (simp add: st)
    show "expiration (r\<lparr>expiration := Some (int issued + 300 * 1000)\<rparr>) =
            Some (int issued + 300 * 1000)"
      by simp
    show "int issued + 300 * 1000 - tokenExpiryBuffer ?s * 1000 \<le> int now"
      using assms(1,4) by (simp add: st)
  qed
  then have again: "ensureAccessToken exch' now now' ?s = getAccessToken exch' now' ?s"
    by (rule ensure_stale)
  have "token_request ?s = token_request s"
    by (simp add: st token_request_def)
  with again stale show ?thesis
    by (simp add: st sent_getAccessToken)
qed

theorem expiry_buffer_boundary_witness:
  "tokenExpiryBuffer (constructor sample_options) = 300 \<and>
   expires_in short_lived_token = 300 \<and>
   (\<lambda>req. Resolved short_lived_token) (token_request (constructor sample_options)) =
     Resolved short_lived_token \<and>
   (5000::nat) \<le> 5000 \<and>
   map_option expiration
     (tokenData (state_after (getAccessToken (\<lambda>req. Resolved short_lived_token) 5000
        (constructor sample_options)))) = Some (Some 305000) \<and>
   sent (ensureAccessToken offline 5000 5001
     (state_after (getAccessToken (\<lambda>req. Resolved short_lived_token) 5000
        (constructor sample_options)))) = [token_request (constructor sample_options)]"
proof -
  have h1: "tokenExpiryBuffer (constructor sample_options) = 300"
    by (simp add: constructor_def)
  have h2: "expires_in short_lived_token = 300"
    by (simp add: short_lived_token_def)
  have h3: "(\<lambda>req. Resolved short_lived_token) (token_request (constructor sample_options)) =
              Resolved short_lived_token"
    by simp
  have h4: "(5000::nat) \<le> 5000"
    by simp
  note fact = expiry_buffer_boundary [OF h1 h2 h3 h4, where exch' = offline and now' = 5001]
  from fact have "tokenData (state_after (getAccessToken (\<lambda>req. Resolved short_lived_token) 5000
        (constructor sample_options))) =
      Some (short_lived_token\<lparr>expiration := Some (int 5000 + 300 * 1000)\<rparr>)"
    by (rule conjunct1)
  then have c1: "map_option expiration
     (tokenData (state_after (getAccessToken (\<lambda>req. Resolved short_lived_token) 5000
        (constructor sample_options)))) = Some (Some 305000)"
    by simp
  from fact have c2: "sent (ensureAccessToken offline 5000 5001
     (state_after (getAccessToken (\<lambda>req. Resolved short_lived_token) 5000
        (constructor sample_options)))) = [token_request (constructor sample_options)]"
    by blast
  from h1 h2 h3 h4 c1 c2 show ?thesis
    by blast
qed

section \<open>Invalidation on HTTP 401\<close>

text \<open>
  Claim C3. Whenever a request issued through the authenticated client fails with HTTP
  status 401, the service drops its cached token, so the next \<^verbatim>\<open>ensureAccessToken()\<close>
  performs the exchange, whatever the expiration of the token that was dropped.
\<close>

theorem unauthorized_discards_token:
  assumes "api \<lparr> http_method = m, url = baseURL c @ path, headers = default_headers c, payload = b \<rparr>
             = Rejected (AxiosError e)"
    and "response e = Some resp"
    and "status resp = 401"
  shows "tokenData (state_after (client_request c api m path b s)) = None \<and>
         sent (ensureAccessToken exch now now' (state_after (client_request c api m path b s)))
           = [token_request s]"
proof -
  let ?s = "state_after (client_request c api m path b s)"
  have st: "?s = s\<lparr>tokenData := None\<rparr>"
    using assms by (simp add: client_request_def Let_def handle_401)
  have "\<not> token_fresh now ?s"
    by (simp add: st token_fresh_def)
  then have "ensureAccessToken exch now now' ?s = getAccessToken exch now' ?s"
    by (rule ensure_stale)
  moreover have "token_request ?s = token_request s"
    by (simp add: st token_request_def)
  ultimately show ?thesis
    by (simp add: st sent_getAccessToken)
qed

theorem unauthorized_discards_token_witness:
  "(\<lambda>req. Rejected (failure_with 401 (JObj [(''error'', JStr ''invalid_token'')]) []))
     \<lparr> http_method = ''post'', url = baseURL sample_client @ ''/v2/checkout/orders'',
       headers = default_headers sample_client, payload = JsonBody (JObj []) \<rparr>
     = Rejected (AxiosError unauthorized_error) \<and>
   response unauthorized_error =
     Some \<lparr> status = 401, data = JObj [(''error'', JStr ''invalid_token'')],
            response_headers = [] \<rparr> \<and>
   status \<lparr> status = 401, data = JObj [(''error'', JStr ''invalid_token'')],
            response_headers = [] \<rparr> = 401 \<and>
   token_fresh 1000000 cached_service \<and>
   tokenData (state_after (client_request sample_client
      (\<lambda>req. Rejected (failure_with 401 (JObj [(''error'', JStr ''invalid_token'')]) []))
      ''post'' ''/v2/checkout/orders'' (JsonBody (JObj [])) cached_service)) = None \<and>
   sent (ensureAccessToken offline 1000000 1000001 (state_after (client_request sample_client
      (\<lambda>req. Rejected (failure_with 401 (JObj [(''error'', JStr ''invalid_token'')]) []))
      ''post'' ''/v2/checkout/orders'' (JsonBody (JObj [])) cached_service)))
     = [token_request cached_service]"
proof -
  let ?api = "\<lambda>req :: http_request.
     (Rejected (failure_with 401 (JObj [(''error'', JStr ''invalid_token'')]) [])
        :: http_response outcome)"
  let ?resp = "\<lparr> status = 401, data = JObj [(''error'', JStr ''invalid_token'')],
                 response_headers = [] \<rparr>"
  have digits: "nat_digits 401 = ''401''"
    by code_simp
  have h1: "?api \<lparr> http_method = ''post'', url = baseURL sample_client @ ''/v2/checkout/orders'',
       headers = default_headers sample_client, payload = JsonBody (JObj []) \<rparr>
     = Rejected (AxiosError unauthorized_error)"
    by (simp add: failure_with_def unauthorized_error_def digits)
  have h2: "response unauthorized_error = Some ?resp"
    by (simp add: unauthorized_error_def)
  have h3: "status ?resp = 401"
    by simp
  have fresh: "token_fresh 1000000 cached_service"
    by (simp add: token_fresh_def cached_service_def sample_token_def constructor_def)
  note fact = unauthorized_discards_token [OF h1 h2 h3, where s = cached_service
      and exch = offline and now = 1000000 and now' = 1000001]
  from h1 h2 h3 fresh fact show ?thesis
    by blast
qed

section \<open>Messages of a failed exchange\<close>

text \<open>
  Claim C5. For every client secret and every failure of the token exchange, the error
  thrown by \<^verbatim>\<open>getAccessToken\<close> and the error thrown by \<^verbatim>\<open>verifyCredentials()\<close> carry
  one fixed message each, the same whatever the secret is.
\<close>

theorem exchange_failure_message_fixed:
  assumes "exch (token_request (s\<lparr>clientSecret := secret\<rparr>)) = Rejected err"
  shows "result (getAccessToken exch now (s\<lparr>clientSecret := secret\<rparr>)) =
           Inl (PlainError ''Failed to authenticate with PayPal API'') \<and>
         result (verifyCredentials exch now (s\<lparr>clientSecret := secret\<rparr>)) =
           Inl (PlainError
             ''Invalid PayPal credentials. Please check your client ID and secret.'')"
  using getAccessToken_rejected [of exch "s\<lparr>clientSecret := secret\<rparr>" err now] assms
  by (simp add: verifyCredentials_def Let_def)

theorem exchange_failure_message_fixed_witness:
  "(offline :: http_request \<Rightarrow> TokenResponse outcome)
      (token_request (cached_service\<lparr>clientSecret := ''hunter2''\<rparr>))
      = Rejected (PlainError ''connect ECONNREFUSED'') \<and>
   result (getAccessToken offline 5 (cached_service\<lparr>clientSecret := ''hunter2''\<rparr>)) =
     Inl (PlainError ''Failed to authenticate with PayPal API'') \<and>
   result (verifyCredentials offline 5 (cached_service\<lparr>clientSecret := ''hunter2''\<rparr>)) =
     Inl (PlainError ''Invalid PayPal credentials. Please check your client ID and secret.'')"
proof -
  have h: "(offline :: http_request \<Rightarrow> TokenResponse outcome)
      (token_request (cached_service\<lparr>clientSecret := ''hunter2''\<rparr>))
      = Rejected (PlainError ''connect ECONNREFUSED'')"
    by (simp add: offline_def)
  from h exchange_failure_message_fixed [where exch = offline and s = cached_service
      and secret = "''hunter2''" and err = "PlainError ''connect ECONNREFUSED''" and now = 5]
  show ?thesis
    by blast
qed

section \<open>Provider failures other than 401\<close>

text \<open>
  Claim C6, as the code has it. \<^verbatim>\<open>handleRequestError\<close> has no case for status 429
  and never reads the response headers: on a 429 the message of the rejection is
  \<^verbatim>\<open>PayPal API error: \<close> followed by the body's \<^verbatim>\<open>error_description\<close> or else its
  \<^verbatim>\<open>message\<close>, or else the axios error's own message, whatever headers (among them a
  retry-after hint) the response carries.
\<close>

theorem rate_limit_message_ignores_headers:
  assumes "response e = Some resp"
    and "status resp = 429"
  shows "error_message (fst (handleRequestError
            (AxiosError (e\<lparr>response := Some (resp\<lparr>response_headers := hs\<rparr>)\<rparr>)) s)) =
         (case truthy_field (Some (data resp)) ''error_description'' of
            Some v \<Rightarrow> ''PayPal API error: '' @ js_string v
          | None \<Rightarrow>
              (case truthy_field (Some (data resp)) ''message'' of
                 Some v \<Rightarrow> ''PayPal API error: '' @ js_string v
               | None \<Rightarrow> message e))"
  using assms by (simp add: handleRequestError_def Let_def split: option.splits)

theorem rate_limit_message_ignores_headers_witness:
  "response rate_limited_error =
     Some \<lparr> status = 429, data = JObj [(''message'', JStr ''Too many requests'')],
            response_headers = [] \<rparr> \<and>
   status \<lparr> status = 429, data = JObj [(''message'', JStr ''Too many requests'')],
            response_headers = [] \<rparr> = 429 \<and>
   error_message (fst (handleRequestError
      (AxiosError (rate_limited_error\<lparr>response :=
         Some \<lparr> status = 429, data = JObj [(''message'', JStr ''Too many requests'')],
                response_headers = [(''retry-after'', ''30'')] \<rparr>\<rparr>)) cached_service)) =
     ''PayPal API error: Too many requests''"
proof -
  let ?resp = "\<lparr> status = 429, data = JObj [(''message'', JStr ''Too many requests'')],
                 response_headers = [] \<rparr>"
  have h1: "response rate_limited_error = Some ?resp"
    by (simp add: rate_limited_error_def)
  have h2: "status ?resp = 429"
    by simp
  have "error_message (fst (handleRequestError
      (AxiosError (rate_limited_error\<lparr>response :=
         Some (?resp\<lparr>response_headers := [(''retry-after'', ''30'')]\<rparr>)\<rparr>)) cached_service)) =
     ''PayPal API error: Too many requests''"
    using rate_limit_message_ignores_headers [OF h1 h2, of "[(''retry-after'', ''30'')]" cached_service]
    by (simp add: truthy_field_def)
  with h1 h2 show ?thesis
    by simp
qed

text \<open>
  The claim as stated fails: a 429 whose response carries \<^verbatim>\<open>retry-after: 30\<close> is
  rejected with the same message as one without the header, and the hint is not in it.
\<close>

theorem rate_limit_counterexample:
  "fst (handleRequestError
          (failure_with 429 (JObj [(''message'', JStr ''Too many requests'')])
             [(''retry-after'', ''30'')])
          cached_service) = PlainError ''PayPal API error: Too many requests'' \<and>
   \<not> sublist ''30'' ''PayPal API error: Too many requests'' \<and>
   fst (handleRequestError
          (failure_with 429 (JObj [(''message'', JStr ''Too many requests'')]) [])
          cached_service) = PlainError ''PayPal API error: Too many requests''"
  by (simp add: handleRequestError_def failure_with_def truthy_field_def Let_def sublist_code)

text \<open>
  Claim C7, as the code has it. For a failure whose status is not 401 and whose body
  has a non-empty string \<^verbatim>\<open>error_description\<close>, or no truthy \<^verbatim>\<open>error_description\<close>
  and a non-empty string \<^verbatim>\<open>message\<close>, the handler rejects with a new error whose
  message is \<^verbatim>\<open>PayPal API error: \<close> followed by that field's value; the cached token
  stays, and one log line is written.
\<close>

theorem provider_error_message_prefixed:
  assumes "response e = Some resp"
    and "status resp \<noteq> 401"
    and "get_prop (data resp) ''error_description'' = Some (JStr d) \<and> d \<noteq> [] \<or>
         truthy_field (Some (data resp)) ''error_description'' = None \<and>
         get_prop (data resp) ''message'' = Some (JStr d) \<and> d \<noteq> []"
  shows "handleRequestError (AxiosError e) s =
           (PlainError (''PayPal API error: '' @ d), s,
            [Log ERROR ''PayPal API error:''
              [LApiError (Some (status resp)) (Some (sanitizeForLogging (data resp)))
                 (config_url e) (config_method e)]])"
proof -
  have obj: "truthy (data resp)"
    using assms(3) by (cases "data resp") auto
  from assms(3) show ?thesis
  proof
    assume "get_prop (data resp) ''error_description'' = Some (JStr d) \<and> d \<noteq> []"
    then have "truthy_field (Some (data resp)) ''error_description'' = Some (JStr d)"
      using obj by (simp add: truthy_field_def)
    then show ?thesis
      using assms(1,2) by (simp add: handleRequestError_def Let_def)
  next
    assume other: "truthy_field (Some (data resp)) ''error_description'' = None \<and>
          get_prop (data resp) ''message'' = Some (JStr d) \<and> d \<noteq> []"
    then have "truthy_field (Some (data resp)) ''message'' = Some (JStr d)"
      using obj by (simp add: truthy_field_def)
    then show ?thesis
      using assms(1,2) other by (simp add: handleRequestError_def Let_def)
  qed
qed

theorem provider_error_message_prefixed_witness:
  "response invalid_request_error =
     Some \<lparr> status = 400, data = JObj [(''error_description'', JStr ''Invalid request'')],
            response_headers = [] \<rparr> \<and>
   status \<lparr> status = 400, data = JObj [(''error_description'', JStr ''Invalid request'')],
            response_headers = [] \<rparr> \<noteq> 401 \<and>
   get_prop (JObj [(''error_description'', JStr ''Invalid request'')]) ''error_description'' =
     Some (JStr ''Invalid request'') \<and>
   fst (handleRequestError (AxiosError invalid_request_error) cached_service) =
     PlainError ''PayPal API error: Invalid request''"
proof -
  let ?resp = "\<lparr> status = 400, data = JObj [(''error_description'', JStr ''Invalid request'')],
            response_headers = [] \<rparr>"
  have h1: "response invalid_request_error = Some ?resp"
    by (simp add: invalid_request_error_def)
  have h2: "status ?resp \<noteq> 401"
    by simp
  have h3: "get_prop (data ?resp) ''error_description'' = Some (JStr ''Invalid request'') \<and>
            ''Invalid request'' \<noteq> [] \<or>
         truthy_field (Some (data ?resp)) ''error_description'' = None \<and>
         get_prop (data ?resp) ''message'' = Some (JStr ''Invalid request'') \<and>
         ''Invalid request'' \<noteq> []"
    by simp
  have "fst (handleRequestError (AxiosError invalid_request_error) cached_service) =
     PlainError (''PayPal API error: '' @ ''Invalid request'')"
    using provider_error_message_prefixed [OF h1 h2 h3, of cached_service] by simp
  with h1 h2 show ?thesis
    by simp
qed

text \<open>
  The claim as stated fails: the message is not the field's value but the value behind
  a fixed prefix.
\<close>

theorem provider_error_message_counterexample:
  "fst (handleRequestError
          (failure_with 400 (JObj [(''error_description'', JStr ''Invalid request'')]) [])
          cached_service) = PlainError ''PayPal API error: Invalid request'' \<and>
   error_message (fst (handleRequestError
          (failure_with 400 (JObj [(''error_description'', JStr ''Invalid request'')]) [])
          cached_service)) \<noteq> ''Invalid request''"
  by (simp add: handleRequestError_def failure_with_def truthy_field_def Let_def)

section \<open>The tools' requests\<close>

text \<open>
  Claim C9. Whatever the service is configured with (sandbox or live, a token cached or
  not), \<^verbatim>\<open>get_userinfo\<close> sends one GET to the fixed live address under
  \<^verbatim>\<open>https://api-m.paypal.com\<close>, with the caller's \<^verbatim>\<open>access_token\<close> argument as the
  bearer token; the service is neither read (the outcome is the same for any two
  services) nor changed.
\<close>

theorem getUserInfo_fixed_live_endpoint:
  assumes "map_of args ''access_token'' = Some (JStr tok)"
  shows "sent (getUserInfo args api s) =
           [\<lparr> http_method = ''get'',
              url = ''https://api-m.paypal.com/v1/identity/oauth2/userinfo?schema=paypalv1.1'',
              headers = [(''Authorization'', ''Bearer '' @ tok),
                         (''Content-Type'', ''application/json'')],
              payload = NoBody \<rparr>] \<and>
         state_after (getUserInfo args api s) = s \<and>
         result (getUserInfo args api s) = result (getUserInfo args api s') \<and>
         sent (getUserInfo args api s) = sent (getUserInfo args api s')"
  using assms by (simp add: getUserInfo_def Let_def template_def split: outcome.splits)

theorem getUserInfo_fixed_live_endpoint_witness:
  "map_of [(''access_token'', JStr ''USERTOKEN'')] ''access_token'' = Some (JStr ''USERTOKEN'') \<and>
   baseUrl cached_service = ''https://api-m.sandbox.paypal.com'' \<and>
   map_option access_token (tokenData cached_service) = Some ''A21AAF'' \<and>
   sent (getUserInfo [(''access_token'', JStr ''USERTOKEN'')] offline cached_service) =
     [\<lparr> http_method = ''get'',
        url = ''https://api-m.paypal.com/v1/identity/oauth2/userinfo?schema=paypalv1.1'',
        headers = [(''Authorization'', ''Bearer USERTOKEN''),
                   (''Content-Type'', ''application/json'')],
        payload = NoBody \<rparr>] \<and>
   state_after (getUserInfo [(''access_token'', JStr ''USERTOKEN'')] offline cached_service) =
     cached_service"
proof -
  have h: "map_of [(''access_token'', JStr ''USERTOKEN'')] ''access_token'' =
             Some (JStr ''USERTOKEN'')"
    by simp
  have env: "baseUrl cached_service = ''https://api-m.sandbox.paypal.com''"
    by (simp add: cached_service_def constructor_def sample_options_def)
  have tok: "map_option access_token (tokenData cached_service) = Some ''A21AAF''"
    by (simp add: cached_service_def sample_token_def)
  from getUserInfo_fixed_live_endpoint [OF h, of offline cached_service cached_service]
  have "sent (getUserInfo [(''access_token'', JStr ''USERTOKEN'')] offline cached_service) =
     [\<lparr> http_method = ''get'',
        url = ''https://api-m.paypal.com/v1/identity/oauth2/userinfo?schema=paypalv1.1'',
        headers = [(''Authorization'', ''Bearer USERTOKEN''),
                   (''Content-Type'', ''application/json'')],
        payload = NoBody \<rparr>] \<and>
   state_after (getUserInfo [(''access_token'', JStr ''USERTOKEN'')] offline cached_service) =
     cached_service"
    by simp
  with h env tok show ?thesis
    by blast
qed

text \<open>
  Claim C10. \<^verbatim>\<open>create_subscription\<close> sends, after the requests of authentication and
  only when that succeeds, one POST to \<^verbatim>\<open>/v1/billing/subscriptions\<close> whose body is the
  argument object without its \<^verbatim>\<open>plan_id\<close>: the body has no \<^verbatim>\<open>plan_id\<close> and every other
  property as the arguments have it. The \<^verbatim>\<open>plan_id\<close> goes into the first log line.
\<close>

theorem createSubscription_body:
  "sent (createSubscription args exch api now now' s) =
     sent (getAuthenticatedClient exch now now' s) @
     (case result (getAuthenticatedClient exch now now' s) of
        Inl err \<Rightarrow> []
      | Inr c \<Rightarrow>
          [\<lparr> http_method = ''post'',
             url = baseURL c @ ''/v1/billing/subscriptions'',
             headers = default_headers c,
             payload = JsonBody (JObj (filter (\<lambda>kv. fst kv \<noteq> ''plan_id'') args)) \<rparr>]) \<and>
   map_of (filter (\<lambda>kv. fst kv \<noteq> ''plan_id'') args) ''plan_id'' = None \<and>
   (\<forall>k. k \<noteq> ''plan_id'' \<longrightarrow>
        map_of (filter (\<lambda>kv. fst kv \<noteq> ''plan_id'') args) k = map_of args k) \<and>
   hd (logged (createSubscription args exch api now now' s)) =
     Log INFO (''Creating subscription for plan: '' @ template (map_of args ''plan_id'')) []"
proof -
  have "sent (createSubscription args exch api now now' s) =
     sent (getAuthenticatedClient exch now now' s) @
     (case result (getAuthenticatedClient exch now now' s) of
        Inl err \<Rightarrow> []
      | Inr c \<Rightarrow>
          [\<lparr> http_method = ''post'',
             url = baseURL c @ ''/v1/billing/subscriptions'',
             headers = default_headers c,
             payload = JsonBody (JObj (filter (\<lambda>kv. fst kv \<noteq> ''plan_id'') args)) \<rparr>])"
    by (simp add: createSubscription_def Let_def sent_client_request split: sum.splits)
  moreover have "hd (logged (createSubscription args exch api now now' s)) =
     Log INFO (''Creating subscription for plan: '' @ template (map_of args ''plan_id'')) []"
    by (simp add: createSubscription_def Let_def split: sum.splits)
  ultimately show ?thesis
    by (simp add: map_of_filter_key)
qed

theorem createSubscription_body_witness:
  "sent (createSubscription subscription_args offline accepting 1000000 1000001 cached_service) =
     [\<lparr> http_method = ''post'',
        url = ''https://api-m.sandbox.paypal.com/v1/billing/subscriptions'',
        headers = [(''Authorization'', ''Bearer A21AAF''),
                   (''Content-Type'', ''application/json'')],
        payload = JsonBody (JObj
          [(''subscriber'',
            JObj [(''name'', JObj [(''given_name'', JStr ''Ada''), (''surname'', JStr ''Byron'')]),
                  (''email_address'', JStr ''ada@example.com'')])]) \<rparr>] \<and>
   ''subscriber'' \<noteq> ''plan_id'' \<and>
   map_of (filter (\<lambda>kv. fst kv \<noteq> ''plan_id'') subscription_args) ''subscriber'' =
     map_of subscription_args ''subscriber'' \<and>
   hd (logged (createSubscription subscription_args offline accepting 1000000 1000001
         cached_service)) = Log INFO ''Creating subscription for plan: P-123'' []"
proof -
  note fact = createSubscription_body [of subscription_args offline accepting 1000000 1000001
      cached_service]
  have auth: "getAuthenticatedClient offline 1000000 1000001 cached_service =
      \<lparr> result = Inr sample_client, state_after = cached_service, sent = [], logged = [] \<rparr>"
    by (simp add: getAuthenticatedClient_def ensureAccessToken_def token_fresh_def Let_def
        cached_service_def sample_token_def constructor_def sample_options_def
        sample_client_def template_def)
  have rest: "filter (\<lambda>kv. fst kv \<noteq> ''plan_id'') subscription_args =
      [(''subscriber'',
            JObj [(''name'', JObj [(''given_name'', JStr ''Ada''), (''surname'', JStr ''Byron'')]),
                  (''email_address'', JStr ''ada@example.com'')])]"
    by (simp add: subscription_args_def)
  have plan: "map_of subscription_args ''plan_id'' = Some (JStr ''P-123'')"
    by (simp add: subscription_args_def)
  have ne: "''subscriber'' \<noteq> ''plan_id''"
    by simp
  from fact have sent_eq: "sent (createSubscription subscription_args offline accepting 1000000
        1000001 cached_service) =
     sent (getAuthenticatedClient offline 1000000 1000001 cached_service) @
     (case result (getAuthenticatedClient offline 1000000 1000001 cached_service) of
        Inl err \<Rightarrow> []
      | Inr c \<Rightarrow>
          [\<lparr> http_method = ''post'',
             url = baseURL c @ ''/v1/billing/subscriptions'',
             headers = default_headers c,
             payload = JsonBody (JObj (filter (\<lambda>kv. fst kv \<noteq> ''plan_id'')
               subscription_args)) \<rparr>])"
    by (rule conjunct1)
  from fact have log_eq: "hd (logged (createSubscription subscription_args offline accepting
         1000000 1000001 cached_service)) =
     Log INFO (''Creating subscription for plan: '' @
       template (map_of subscription_args ''plan_id'')) []"
    by (elim conjE)
  from sent_eq have c1: "sent (createSubscription subscription_args offline accepting 1000000 1000001
        cached_service) =
     [\<lparr> http_method = ''post'',
        url = ''https://api-m.sandbox.paypal.com/v1/billing/subscriptions'',
        headers = [(''Authorization'', ''Bearer A21AAF''),
                   (''Content-Type'', ''application/json'')],
        payload = JsonBody (JObj
          [(''subscriber'',
            JObj [(''name'', JObj [(''given_name'', JStr ''Ada''), (''surname'', JStr ''Byron'')]),
                  (''email_address'', JStr ''ada@example.com'')])]) \<rparr>]"
    by (simp add: auth rest sample_client_def)
  from fact have others: "\<forall>k. k \<noteq> ''plan_id'' \<longrightarrow>
      map_of (filter (\<lambda>kv. fst kv \<noteq> ''plan_id'') subscription_args) k =
      map_of subscription_args k"
    by (elim conjE)
  have c2: "map_of (filter (\<lambda>kv. fst kv \<noteq> ''plan_id'') subscription_args)
       ''subscriber'' = map_of subscription_args ''subscriber''"
    by (rule others [rule_format, OF ne])
  from log_eq have c3: "hd (logged (createSubscription subscription_args offline accepting
         1000000 1000001 cached_service)) = Log INFO ''Creating subscription for plan: P-123'' []"
    by (simp add: plan template_def)
  show ?thesis
    by (intro conjI) (rule c1, rule ne, rule c2, rule c3)
qed

section \<open>The log sanitizer\<close>










section \<open>Concurrent calls of \<^verbatim>\<open>ensureAccessToken\<close>\<close>

lemma invoke_all:
  assumes "\<forall>ct \<in> set calls. \<not> token_fresh (snd ct) (service L)"
  shows "foldl step L (map (\<lambda>ct. Invoke (fst ct) (snd ct)) calls) =
           L\<lparr>in_flight := in_flight L @ map (\<lambda>ct. (fst ct, token_request (service L))) calls,
             exchanges := exchanges L @ map (\<lambda>ct. token_request (service L)) calls\<rparr>"
  using assms
proof (induction calls arbitrary: L)
  case Nil
  then show ?case by simp
next
  case (Cons ct calls)
  let ?L = "step L (Invoke (fst ct) (snd ct))"
  have first: "?L = L\<lparr>in_flight := in_flight L @ [(fst ct, token_request (service L))],
                       exchanges := exchanges L @ [token_request (service L)]\<rparr>"
    using Cons.prems by (simp add: start_stale)
  then have "service ?L = service L"
    by simp
  with Cons.prems have "\<forall>ct \<in> set calls. \<not> token_fresh (snd ct) (service ?L)"
    by simp
  from Cons.IH [OF this] show ?case
    by (simp add: first del: step.simps)
qed

lemma settle_resolved:
  assumes "map_of (in_flight L) c = Some req"
  shows "step L (Settle c now (Resolved r)) =
           L\<lparr>service := (service L)\<lparr>tokenData :=
                Some (r\<lparr>expiration := Some (int now + expires_in r * 1000)\<rparr>)\<rparr>,
             in_flight := filter (\<lambda>p. fst p \<noteq> c) (in_flight L),
             settled_calls := settled_calls L @ [(c, Inr (access_token r))]\<rparr>"
  using assms by (simp add: getAccessToken_resume_def Let_def)

lemma settle_all:
  assumes "distinct (map fst answers)"
    and "\<forall>a \<in> set answers. map_of (in_flight L) (fst a) \<noteq> None"
  shows "settled_calls (foldl step L
            (map (\<lambda>a. Settle (fst a) (fst (snd a)) (Resolved (snd (snd a)))) answers)) =
           settled_calls L @ map (\<lambda>a. (fst a, Inr (access_token (snd (snd a))))) answers \<and>
         exchanges (foldl step L
            (map (\<lambda>a. Settle (fst a) (fst (snd a)) (Resolved (snd (snd a)))) answers)) =
           exchanges L \<and>
         tokenData (service (foldl step L
            (map (\<lambda>a. Settle (fst a) (fst (snd a)) (Resolved (snd (snd a)))) answers))) =
           (if answers = [] then tokenData (service L)
            else Some ((snd (snd (last answers)))\<lparr>expiration :=
                   Some (int (fst (snd (last answers))) +
                         expires_in (snd (snd (last answers))) * 1000)\<rparr>))"
  using assms
proof (induction answers arbitrary: L)
  case Nil
  then show ?case by simp
next
  case (Cons a answers)
  obtain c now r where a: "a = (c, now, r)"
    by (cases a) auto
  from Cons.prems(2) obtain req where req: "map_of (in_flight L) c = Some req"
    by (auto simp: a)
  let ?L = "step L (Settle c now (Resolved r))"
  note first = settle_resolved [OF req, of now r]
  have waiting: "\<forall>b \<in> set answers. map_of (in_flight ?L) (fst b) \<noteq> None"
  proof
    fix b
    assume b: "b \<in> set answers"
    with Cons.prems(1) have "fst b \<noteq> c"
      by (auto simp: a)
    moreover from b Cons.prems(2) have "map_of (in_flight L) (fst b) \<noteq> None"
      by simp
    ultimately show "map_of (in_flight ?L) (fst b) \<noteq> None"
      by (simp add: first map_of_filter_key del: step.simps)
  qed
  from Cons.prems(1) have others: "distinct (map fst answers)"
    by simp
  note IH = Cons.IH [OF others waiting]
  have unfold: "foldl step L
      (map (\<lambda>a. Settle (fst a) (fst (snd a)) (Resolved (snd (snd a)))) (a # answers)) =
      foldl step ?L (map (\<lambda>a. Settle (fst a) (fst (snd a)) (Resolved (snd (snd a)))) answers)"
    by (simp add: a del: step.simps)
  show ?case
    unfolding unfold using IH by (simp add: first a del: step.simps)
qed

text \<open>
  Claim C1, as the code has it. \<^verbatim>\<open>ensureAccessToken\<close> keeps no record of an exchange
  in flight. When no fresh token is cached, N concurrent calls send N exchange
  requests, one each (exactly one only for N = 1). When the exchanges succeed, each call
  resolves to the token of its own response, and the token left in the cache is that of
  the response that arrived last, whichever call it answers.
\<close>

theorem concurrent_calls_exchange_each:
  assumes "calls \<noteq> []"
    and "\<forall>ct \<in> set calls. \<not> token_fresh (snd ct) s"
    and "distinct (map fst answers)"
    and "fst ` set answers \<subseteq> fst ` set calls"
  shows "exchanges (run_events (idle s) (concurrent_calls calls answers)) =
           replicate (length calls) (token_request s) \<and>
         settled_calls (run_events (idle s) (concurrent_calls calls answers)) =
           map (\<lambda>a. (fst a, Inr (access_token (snd (snd a))))) answers \<and>
         (answers \<noteq> [] \<longrightarrow>
            tokenData (service (run_events (idle s) (concurrent_calls calls answers))) =
              Some ((snd (snd (last answers)))\<lparr>expiration :=
                 Some (int (fst (snd (last answers))) +
                       expires_in (snd (snd (last answers))) * 1000)\<rparr>))"
proof -
  let ?L = "foldl step (idle s) (map (\<lambda>ct. Invoke (fst ct) (snd ct)) calls)"
  have "\<forall>ct \<in> set calls. \<not> token_fresh (snd ct) (service (idle s))"
    using assms(2) by (simp add: idle_def)
  from invoke_all [OF this]
  have invoked: "?L = \<lparr> service = s,
                        in_flight = map (\<lambda>ct. (fst ct, token_request s)) calls,
                        exchanges = map (\<lambda>ct. token_request s) calls,
                        settled_calls = [] \<rparr>"
    by (simp add: idle_def)
  have waiting: "\<forall>a \<in> set answers. map_of (in_flight ?L) (fst a) \<noteq> None"
  proof
    fix a
    assume "a \<in> set answers"
    with assms(4) have "fst a \<in> fst ` set calls"
      by auto
    then have "fst a \<in> fst ` set (map (\<lambda>ct. (fst ct, token_request s)) calls)"
      by (simp add: image_image)
    then have "map_of (map (\<lambda>ct. (fst ct, token_request s)) calls) (fst a) \<noteq> None"
      by (simp add: map_of_eq_None_iff)
    then show "map_of (in_flight ?L) (fst a) \<noteq> None"
      by (simp add: invoked)
  qed
  have whole: "run_events (idle s) (concurrent_calls calls answers) =
      foldl step ?L (map (\<lambda>a. Settle (fst a) (fst (snd a)) (Resolved (snd (snd a)))) answers)"
    by (simp add: run_events_def concurrent_calls_def)
  have "exchanges ?L = replicate (length calls) (token_request s)"
    by (simp add: invoked map_replicate_const)
  moreover have "settled_calls ?L = []" and "service ?L = s"
    by (simp_all add: invoked)
  ultimately show ?thesis
    unfolding whole using settle_all [OF assms(3) waiting] by simp
qed

theorem concurrent_calls_exchange_each_witness:
  "[(0, 1000), (1, 1000)] \<noteq> ([] :: (nat \<times> nat) list) \<and>
   \<not> token_fresh 1000 (constructor sample_options) \<and>
   distinct (map fst [(1::nat, 1200::nat, second_token), (0, 1500, sample_token)]) \<and>
   fst ` set [(1::nat, 1200::nat, second_token), (0, 1500, sample_token)] \<subseteq>
     fst ` set [(0::nat, 1000::nat), (1, 1000)] \<and>
   exchanges (run_events (idle (constructor sample_options))
      (concurrent_calls [(0, 1000), (1, 1000)]
         [(1, 1200, second_token), (0, 1500, sample_token)])) =
     [token_request (constructor sample_options), token_request (constructor sample_options)] \<and>
   settled_calls (run_events (idle (constructor sample_options))
      (concurrent_calls [(0, 1000), (1, 1000)]
         [(1, 1200, second_token), (0, 1500, sample_token)])) =
     [(1, Inr ''A21AAH''), (0, Inr ''A21AAF'')]"
proof -
  have h1: "[(0, 1000), (1, 1000)] \<noteq> ([] :: (nat \<times> nat) list)"
    by simp
  have h2: "\<forall>ct \<in> set [(0::nat, 1000::nat), (1, 1000)].
      \<not> token_fresh (snd ct) (constructor sample_options)"
    by (simp add: token_fresh_def constructor_def)
  have h3: "distinct (map fst [(1::nat, 1200::nat, second_token), (0, 1500, sample_token)])"
    by simp
  have h4: "fst ` set [(1::nat, 1200::nat, second_token), (0, 1500, sample_token)] \<subseteq>
     fst ` set [(0::nat, 1000::nat), (1, 1000)]"
    by simp
  note fact = concurrent_calls_exchange_each [OF h1 h2 h3 h4]
  from fact have "exchanges (run_events (idle (constructor sample_options))
      (concurrent_calls [(0, 1000), (1, 1000)]
         [(1, 1200, second_token), (0, 1500, sample_token)])) =
     replicate (length [(0::nat, 1000::nat), (1, 1000)])
       (token_request (constructor sample_options))"
    by (rule conjunct1)
  then have c1: "exchanges (run_events (idle (constructor sample_options))
      (concurrent_calls [(0, 1000), (1, 1000)]
         [(1, 1200, second_token), (0, 1500, sample_token)])) =
     [token_request (constructor sample_options), token_request (constructor sample_options)]"
    by (simp add: numeral_2_eq_2)
  from fact have "settled_calls (run_events (idle (constructor sample_options))
      (concurrent_calls [(0, 1000), (1, 1000)]
         [(1, 1200, second_token), (0, 1500, sample_token)])) =
     map (\<lambda>a. (fst a, Inr (access_token (snd (snd a)))))
       [(1::nat, 1200::nat, second_token), (0, 1500, sample_token)]"
    by (elim conjE)
  then have c2: "settled_calls (run_events (idle (constructor sample_options))
      (concurrent_calls [(0, 1000), (1, 1000)]
         [(1, 1200, second_token), (0, 1500, sample_token)])) =
     [(1, Inr ''A21AAH''), (0, Inr ''A21AAF'')]"
    by (simp add: second_token_def sample_token_def)
  have stale: "\<not> token_fresh 1000 (constructor sample_options)"
    by (simp add: token_fresh_def constructor_def)
  show ?thesis
    by (intro conjI) (rule h1, rule stale, rule h3, rule h4, rule c1, rule c2)
qed

text \<open>
  The claim as stated fails for N = 2: with no token cached, two concurrent calls send
  two exchange requests; answered with different tokens, the calls resolve to different
  strings; and the answer to the first request, arriving last, replaces in the cache the
  token of the second.
\<close>

theorem single_flight_counterexample:
  "length (exchanges (run_events (idle (constructor sample_options))
      (concurrent_calls [(0, 1000), (1, 1000)]
         [(1, 1200, second_token), (0, 1500, sample_token)]))) = 2 \<and>
   settled_calls (run_events (idle (constructor sample_options))
      (concurrent_calls [(0, 1000), (1, 1000)]
         [(1, 1200, second_token), (0, 1500, sample_token)])) =
     [(1, Inr ''A21AAH''), (0, Inr ''A21AAF'')] \<and>
   map_option access_token (tokenData (service (run_events (idle (constructor sample_options))
      (concurrent_calls [(0, 1000), (1, 1000)]
         [(1, 1200, second_token), (0, 1500, sample_token)])))) = Some ''A21AAF''"
  by (simp add: run_events_def concurrent_calls_def idle_def ensureAccessToken_start_def
      constructor_def getAccessToken_resume_def Let_def second_token_def sample_token_def)

end
